theory Spec2Isabelle
  imports Complex_Main "HOL-Library.List_Lexorder" "HOL-Library.Char_ord"
begin

section \<open>Python values\<close>

text \<open>
  The facade in \<^verbatim>\<open>agentmemory/main.py\<close> is a set of functions over a Chroma client.
  Exceptions are values of \<open>py_error\<close>; every operation returns its result (or the
  exception it raised) together with the client state it leaves behind, since what a
  call did before raising stays done.
\<close>

datatype py_error =
    Exception string
  | TypeError
  | AttributeError
  | ValueError
  | KeyError

text \<open>Metadata values: Chroma stores strings, integers and floats; callers may pass booleans.\<close>

datatype mval = MStr string | MBool bool | MInt int | MNum real

text \<open>
  A Python \<^verbatim>\<open>dict\<close> keeps insertion order, and the facade iterates over
  \<^verbatim>\<open>items()\<close>, so a dictionary is an association list with distinct keys.
  \<open>dict_set\<close> is \<^verbatim>\<open>d[k] = v\<close>: an existing key keeps its place, a new key goes last.
\<close>

fun dict_set :: "'k \<Rightarrow> 'v \<Rightarrow> ('k \<times> 'v) list \<Rightarrow> ('k \<times> 'v) list" where
  "dict_set k v [] = [(k, v)]"
| "dict_set k v ((k', v') # kvs) =
     (if k' = k then (k, v) # kvs else (k', v') # dict_set k v kvs)"

definition dict_get :: "('k \<times> 'v) list \<Rightarrow> 'k \<Rightarrow> 'v option" where
  "dict_get d k = map_of d k"

text \<open>\<^verbatim>\<open>str(b)\<close> for a boolean.\<close>

definition str_bool :: "bool \<Rightarrow> string" where
  "str_bool b = (if b then ''True'' else ''False'')"

text \<open>\<^verbatim>\<open>str(n)\<close> for a non-negative integer: its decimal digits, most significant first.\<close>

definition digit_char :: "nat \<Rightarrow> char" where
  "digit_char d = ''0123456789'' ! d"

function str_nat :: "nat \<Rightarrow> string" where
  "str_nat n = (if n < 10 then [digit_char n] else str_nat (n div 10) @ [digit_char (n mod 10)])"
  by pat_completeness auto
termination
  by (relation "measure (\<lambda>n. n)") auto

declare str_nat.simps [simp del]

text \<open>
  \<^verbatim>\<open>s.zfill(width)\<close>: zeros are added on the left up to the width, after a leading sign
  if there is one; a string that is already that long is returned as it is.
\<close>

definition zfill :: "string \<Rightarrow> nat \<Rightarrow> string" where
  "zfill s width =
     (case s of
        c # cs \<Rightarrow>
          if c = CHR ''+'' \<or> c = CHR ''-''
          then c # replicate (width - length s) CHR ''0'' @ cs
          else replicate (width - length s) CHR ''0'' @ s
      | [] \<Rightarrow> replicate width CHR ''0'')"

section \<open>The vector store behind the facade\<close>

text \<open>
  Chroma is an external dependency; what the facade relies on is modelled from the
  contract the specification gives in its section on external interfaces: per-collection
  \<^verbatim>\<open>count\<close>, \<^verbatim>\<open>upsert\<close>, \<^verbatim>\<open>query\<close>, \<^verbatim>\<open>get\<close>, \<^verbatim>\<open>update\<close>, \<^verbatim>\<open>delete\<close>, and
  \<^verbatim>\<open>get_or_create_collection\<close>. A collection is the list of its records in insertion
  order, with distinct ids.
\<close>

record memory =
  mem_id :: string
  document :: string
  metadata :: "(string \<times> mval) list"
  embedding :: "real list"

text \<open>Every call made on the store is recorded, so that a claim can say which calls were issued.\<close>

datatype call =
    GetOrCreateCollection string
  | Count string
  | Upsert string string
  | Query string
  | Get string
  | Update string string
  | Delete string "string list"

text \<open>
  The client: the collections by name, the embedding function and the distance metric
  the store was configured with, the wall clock (the \<open>n\<close>-th reading of
  \<^verbatim>\<open>datetime.datetime.now().timestamp()\<close>), and what the calls left behind: the store
  calls issued, the entries handed to \<^verbatim>\<open>debug_log\<close> as (type, message), and the
  lines printed.
\<close>

record client =
  collections :: "string \<Rightarrow> memory list option"
  embed :: "string \<Rightarrow> real list"
  distance :: "real list \<Rightarrow> real list \<Rightarrow> real"
  clock :: "nat \<Rightarrow> real"
  clock_reads :: nat
  backend_calls :: "call list"
  debug_logs :: "(string \<times> string) list"
  stdout :: "string list"

definition records :: "client \<Rightarrow> string \<Rightarrow> memory list" where
  "records st category = (case collections st category of None \<Rightarrow> [] | Some ms \<Rightarrow> ms)"

definition issue :: "call \<Rightarrow> client \<Rightarrow> client" where
  "issue c st = st\<lparr>backend_calls := backend_calls st @ [c]\<rparr>"

definition now_timestamp :: "client \<Rightarrow> real \<times> client" where
  "now_timestamp st = (clock st (clock_reads st), st\<lparr>clock_reads := Suc (clock_reads st)\<rparr>)"

text \<open>
  Modelled from the spec: \<^verbatim>\<open>get_or_create_collection(name)\<close> of the store's client, which
  creates the collection, empty, if it is not there.
\<close>

definition get_or_create_collection :: "string \<Rightarrow> client \<Rightarrow> client" where
  "get_or_create_collection category st =
     issue (GetOrCreateCollection category)
       (case collections st category of
          None \<Rightarrow> st\<lparr>collections := (collections st)(category \<mapsto> [])\<rparr>
        | Some ms \<Rightarrow> st)"

text \<open>Modelled from the spec: \<^verbatim>\<open>count()\<close> of a collection, the number of its records.\<close>

definition collection_count :: "string \<Rightarrow> client \<Rightarrow> nat \<times> client" where
  "collection_count category st = (length (records st category), issue (Count category) st)"

subsection \<open>The filter language\<close>

text \<open>
  A filter is a Python value built from dictionaries, lists and metadata values.
\<close>

datatype wval = WLit mval | WDict "(string \<times> wval) list" | WList "wval list"

text \<open>
  Modelled from the spec: the store's validation of a \<^verbatim>\<open>where\<close> filter (Chroma's code is
  not part of the repository). The filter language has per-field equality
  \<^verbatim>\<open>{field: {"$eq": value}}\<close> and conjunction \<^verbatim>\<open>{"$and": [...]}\<close>; an expression is one
  such clause, that is a dictionary with exactly one key. The shorthand
  \<^verbatim>\<open>{field: value}\<close>, which the facade sends for a single-key filter, is accepted as
  equality too.
\<close>

fun validate_where :: "wval \<Rightarrow> bool" where
  "validate_where (WDict [(k, WList ws)]) = (k = ''$and'' \<and> list_all validate_where ws)"
| "validate_where (WDict [(k, WLit v)]) = (k \<noteq> ''$and'')"
| "validate_where (WDict [(k, WDict [(opr, WLit v)])]) = (k \<noteq> ''$and'' \<and> opr = ''$eq'')"
| "validate_where _ = False"

text \<open>
  Modelled from the spec: what a well-formed \<^verbatim>\<open>where\<close> filter selects, by the metadata
  of a record.
\<close>

fun where_holds :: "wval \<Rightarrow> (string \<times> mval) list \<Rightarrow> bool" where
  "where_holds (WDict [(k, WList ws)]) md = list_all (\<lambda>w. where_holds w md) ws"
| "where_holds (WDict [(k, WLit v)]) md = (dict_get md k = Some v)"
| "where_holds (WDict [(k, WDict [(opr, WLit v)])]) md = (dict_get md k = Some v)"
| "where_holds _ md = False"

text \<open>
  Modelled from the spec: document containment \<^verbatim>\<open>{"$contains": text}\<close>, the only
  \<^verbatim>\<open>where_document\<close> clause of the filter language.
\<close>

fun is_prefix :: "string \<Rightarrow> string \<Rightarrow> bool" where
  "is_prefix [] s = True"
| "is_prefix (c # cs) [] = False"
| "is_prefix (c # cs) (d # ds) = (c = d \<and> is_prefix cs ds)"

fun contains_str :: "string \<Rightarrow> string \<Rightarrow> bool" where
  "contains_str t [] = (t = [])"
| "contains_str t (c # cs) = (is_prefix t (c # cs) \<or> contains_str t cs)"

definition validate_where_document :: "(string \<times> string) list \<Rightarrow> bool" where
  "validate_where_document wd = (case wd of [(k, t)] \<Rightarrow> k = ''$contains'' | _ \<Rightarrow> False)"

definition where_document_holds :: "(string \<times> string) list \<Rightarrow> string \<Rightarrow> bool" where
  "where_document_holds wd doc = (case wd of [(k, t)] \<Rightarrow> contains_str t doc | _ \<Rightarrow> False)"

definition row_selected ::
  "(string \<times> wval) list option \<Rightarrow> (string \<times> string) list option \<Rightarrow> memory \<Rightarrow> bool" where
  "row_selected wh wd m =
     ((case wh of None \<Rightarrow> True | Some w \<Rightarrow> where_holds (WDict w) (metadata m)) \<and>
      (case wd of None \<Rightarrow> True | Some d \<Rightarrow> where_document_holds d (document m)))"

definition filters_valid ::
  "(string \<times> wval) list option \<Rightarrow> (string \<times> string) list option \<Rightarrow> bool" where
  "filters_valid wh wd =
     ((case wh of None \<Rightarrow> True | Some w \<Rightarrow> validate_where (WDict w)) \<and>
      (case wd of None \<Rightarrow> True | Some d \<Rightarrow> validate_where_document d))"

subsection \<open>Store calls\<close>

text \<open>
  What \<^verbatim>\<open>get\<close> returns is a dictionary of parallel lists; \<^verbatim>\<open>query\<close> returns the same
  keys with one inner list per query text. Documents and metadata are in every answer
  the facade asks for; embeddings and distances only when they are among the include
  types.
\<close>

record get_result =
  ids :: "string list"
  documents :: "string list"
  metadatas :: "(string \<times> mval) list list"
  embeddings :: "real list list option"
  distances :: "real list option"

record query_result =
  q_ids :: "string list list"
  q_documents :: "string list list"
  q_metadatas :: "(string \<times> mval) list list list"
  q_embeddings :: "real list list list option"
  q_distances :: "real list list option"

text \<open>
  Modelled from the spec: \<^verbatim>\<open>get(ids?, where?, where_document?, include?, limit?)\<close>, a plain
  fetch of the records with one of the given ids that pass the filters, in insertion
  order; an ill-formed filter is refused.
\<close>

definition chroma_get ::
  "string \<Rightarrow> string list option \<Rightarrow> (string \<times> wval) list option \<Rightarrow>
   (string \<times> string) list option \<Rightarrow> nat option \<Rightarrow> string list \<Rightarrow> client \<Rightarrow>
   (py_error + get_result) \<times> client" where
  "chroma_get category wanted wh wd limit include st =
     (let st1 = issue (Get category) st in
      if \<not> filters_valid wh wd then (Inl ValueError, st1)
      else
        let rows = filter (\<lambda>m. (case wanted of None \<Rightarrow> True | Some is \<Rightarrow> mem_id m \<in> set is)
                               \<and> row_selected wh wd m) (records st category);
            rows' = (case limit of None \<Rightarrow> rows | Some n \<Rightarrow> take n rows)
        in (Inr \<lparr>ids = map mem_id rows',
                 documents = map document rows',
                 metadatas = map metadata rows',
                 embeddings = (if ''embeddings'' \<in> set include
                               then Some (map embedding rows') else None),
                 distances = None\<rparr>, st1))"

text \<open>
  Modelled from the spec: \<^verbatim>\<open>query(query_texts, where?, where_document?, n_results, include)\<close>
  for one query text: the store embeds the text and answers with the \<open>n_results\<close> nearest
  records that pass the filters, nearest first.
\<close>

definition query_distance :: "client \<Rightarrow> string \<Rightarrow> memory \<Rightarrow> real" where
  "query_distance st query_text m = distance st (embed st query_text) (embedding m)"

definition nearest :: "client \<Rightarrow> string \<Rightarrow> nat \<Rightarrow> memory list \<Rightarrow> memory list" where
  "nearest st query_text n ms = take n (sort_key (query_distance st query_text) ms)"

definition chroma_query ::
  "string \<Rightarrow> string \<Rightarrow> (string \<times> wval) list option \<Rightarrow> (string \<times> string) list option \<Rightarrow>
   nat \<Rightarrow> string list \<Rightarrow> client \<Rightarrow> (py_error + query_result) \<times> client" where
  "chroma_query category query_text wh wd n_results include st =
     (let st1 = issue (Query category) st in
      if \<not> filters_valid wh wd then (Inl ValueError, st1)
      else
        let rows = nearest st query_text n_results
                     (filter (row_selected wh wd) (records st category))
        in (Inr \<lparr>q_ids = [map mem_id rows],
                 q_documents = [map document rows],
                 q_metadatas = [map metadata rows],
                 q_embeddings = (if ''embeddings'' \<in> set include
                                 then Some [map embedding rows] else None),
                 q_distances = (if ''distances'' \<in> set include
                                then Some [map (query_distance st query_text) rows] else None)\<rparr>,
            st1))"

text \<open>
  Modelled from the spec: \<^verbatim>\<open>upsert(ids, documents, metadatas, embeddings?)\<close> for one
  record; the same id overwrites, a new id is added, and the store computes the
  embedding when none is given.
\<close>

definition chroma_upsert ::
  "string \<Rightarrow> string \<Rightarrow> string \<Rightarrow> (string \<times> mval) list \<Rightarrow> real list option \<Rightarrow> client \<Rightarrow> client" where
  "chroma_upsert category i text md emb st =
     (let m = \<lparr>mem_id = i, document = text, metadata = md,
               embedding = (case emb of None \<Rightarrow> embed st text | Some e \<Rightarrow> e)\<rparr>;
          ms = records st category;
          ms' = (if i \<in> set (map mem_id ms)
                 then map (\<lambda>r. if mem_id r = i then m else r) ms
                 else ms @ [m])
      in issue (Upsert category i) (st\<lparr>collections := (collections st)(category \<mapsto> ms')\<rparr>))"

text \<open>
  Modelled from the spec: \<^verbatim>\<open>update(ids, documents?, metadatas?)\<close> for one id. A given
  document replaces the old one (and is embedded again); the keys of a given metadata
  dictionary are written over the record's metadata, the other keys staying; an id that
  is not stored is left alone.
\<close>

definition update_record :: "client \<Rightarrow> string option \<Rightarrow> (string \<times> mval) list option \<Rightarrow> memory \<Rightarrow> memory" where
  "update_record st doc md r =
     (let r1 = (case doc of None \<Rightarrow> r | Some t \<Rightarrow> r\<lparr>document := t, embedding := embed st t\<rparr>)
      in case md of None \<Rightarrow> r1
         | Some d \<Rightarrow> r1\<lparr>metadata := fold (\<lambda>(k, v). dict_set k v) d (metadata r1)\<rparr>)"

definition chroma_update ::
  "string \<Rightarrow> string \<Rightarrow> string option \<Rightarrow> (string \<times> mval) list option \<Rightarrow> client \<Rightarrow> client" where
  "chroma_update category i doc md st =
     issue (Update category i)
       (st\<lparr>collections := (collections st)(category \<mapsto>
              map (\<lambda>r. if mem_id r = i then update_record st doc md r else r)
                  (records st category))\<rparr>)"

text \<open>Modelled from the spec: \<^verbatim>\<open>delete(ids)\<close> removes the records with these ids.\<close>

definition chroma_delete :: "string \<Rightarrow> string list \<Rightarrow> client \<Rightarrow> client" where
  "chroma_delete category is st =
     issue (Delete category is)
       (st\<lparr>collections := (collections st)(category \<mapsto>
              filter (\<lambda>r. mem_id r \<notin> set is) (records st category))\<rparr>)"

section \<open>The helpers of the facade\<close>

text \<open>
  Modelled from the spec: \<^verbatim>\<open>agentmemory/helpers.py\<close> is not among the sources. Results
  are records \<^verbatim>\<open>{id, document, metadata, distance?, embedding?}\<close>;
  \<^verbatim>\<open>get_include_types\<close> names what the store is asked for, \<^verbatim>\<open>flatten_arrays\<close> removes
  the nesting per query text, \<^verbatim>\<open>chroma_collection_to_list\<close> turns the parallel lists
  into one record per row (a missing column reads as \<^verbatim>\<open>None\<close>), and \<^verbatim>\<open>debug_log\<close>
  hands a message of a given type to the log.
\<close>

record result =
  r_id :: string
  r_document :: string
  r_metadata :: "(string \<times> mval) list"
  r_embedding :: "real list option"
  r_distance :: "real option"

text \<open>
  Modelled from the spec: \<^verbatim>\<open>get_include_types\<close> of \<^verbatim>\<open>helpers.py\<close>; metadata and
  documents are always asked for.
\<close>

definition get_include_types :: "bool \<Rightarrow> bool \<Rightarrow> string list" where
  "get_include_types include_embeddings include_distances =
     [''metadatas'', ''documents'']
     @ (if include_embeddings then [''embeddings''] else [])
     @ (if include_distances then [''distances''] else [])"

text \<open>Modelled from the spec: \<^verbatim>\<open>flatten_arrays\<close> of \<^verbatim>\<open>helpers.py\<close>.\<close>

definition flatten_arrays :: "query_result \<Rightarrow> get_result" where
  "flatten_arrays q =
     \<lparr>ids = concat (q_ids q),
      documents = concat (q_documents q),
      metadatas = concat (q_metadatas q),
      embeddings = map_option concat (q_embeddings q),
      distances = map_option concat (q_distances q)\<rparr>"

text \<open>
  Modelled from the spec: \<^verbatim>\<open>chroma_collection_to_list\<close> of \<^verbatim>\<open>helpers.py\<close>, with the
  column of embeddings or distances read as \<^verbatim>\<open>None\<close> in every row where the answer has
  none.
\<close>

definition column :: "nat \<Rightarrow> 'a list option \<Rightarrow> 'a option list" where
  "column n c = (case c of None \<Rightarrow> replicate n None | Some xs \<Rightarrow> map Some xs)"

definition chroma_collection_to_list :: "get_result \<Rightarrow> result list" where
  "chroma_collection_to_list c =
     map (\<lambda>(i, d, m, e, s).
            \<lparr>r_id = i, r_document = d, r_metadata = m, r_embedding = e, r_distance = s\<rparr>)
         (zip (ids c) (zip (documents c) (zip (metadatas c)
            (zip (column (length (ids c)) (embeddings c))
                 (column (length (ids c)) (distances c))))))"

text \<open>
  Modelled from the spec: \<^verbatim>\<open>debug_log\<close> of \<^verbatim>\<open>helpers.py\<close>, as the entry it is
  given, whether or not debugging output is switched on.
\<close>

definition debug_log :: "string \<Rightarrow> string \<Rightarrow> client \<Rightarrow> client" where
  "debug_log message type st = st\<lparr>debug_logs := debug_logs st @ [(type, message)]\<rparr>"

section \<open>The facade: \<^verbatim>\<open>agentmemory/main.py\<close>\<close>

text \<open>
  The client handle is taken as initialised (\<^verbatim>\<open>check_client_initialized\<close> and
  \<^verbatim>\<open>get_chroma_client\<close> are not among the sources); the handle \<^verbatim>\<open>memories\<close> of a
  collection is its name. A call that leaves an argument to its default passes the
  default here. Ids are strings (\<^verbatim>\<open>str(id)\<close> of a string is the string), floats
  are read as reals, and the data argument of \<^verbatim>\<open>debug_log\<close> is left out of the log entry. The
  metadata dictionary is always passed by the caller (the default \<^verbatim>\<open>{}\<close> of
  \<^verbatim>\<open>create_memory\<close> and \<^verbatim>\<open>create_unique_memory\<close>, one dictionary shared by all calls
  that omit the argument, is not modelled). \<^verbatim>\<open>wipe_category\<close> and
  \<^verbatim>\<open>wipe_all_memories\<close> are not part of this development.
\<close>

subsection \<open>Boolean metadata values\<close>

text \<open>
  The loop \<^verbatim>\<open>for key, value in metadata.items(): if isinstance(value, bool): ...\<close> of
  \<^verbatim>\<open>create_memory\<close> and \<^verbatim>\<open>update_memory\<close>: it walks the items, prints a warning for each
  boolean and stores its string in the dictionary.
\<close>

fun stringify_bools ::
  "(string \<times> mval) list \<Rightarrow> (string \<times> mval) list \<Rightarrow> string list \<Rightarrow> (string \<times> mval) list \<times> string list" where
  "stringify_bools [] md out = (md, out)"
| "stringify_bools ((key, MBool b) # items) md out =
     stringify_bools items (dict_set key (MStr (str_bool b)) md)
       (out @ [''WARNING: Boolean metadata field '' @ key @ '' converted to string''])"
| "stringify_bools ((key, value) # items) md out = stringify_bools items md out"

subsection \<open>\<^verbatim>\<open>create_memory\<close>\<close>

definition create_memory ::
  "string \<Rightarrow> string \<Rightarrow> (string \<times> mval) list \<Rightarrow> real list option \<Rightarrow> string option \<Rightarrow> client \<Rightarrow>
   (py_error + unit) \<times> client" where
  "create_memory category text md emb id0 st =
     (let st1 = get_or_create_collection category st;
          (t1, st2) = now_timestamp st1;
          md1 = dict_set ''created_at'' (MNum t1) md;
          (t2, st3) = now_timestamp st2;
          md2 = dict_set ''updated_at'' (MNum t2) md1;
          (i, st4) = (case id0 of
                        None \<Rightarrow> (let (n, s) = collection_count category st3
                                 in (zfill (str_nat n) 16, s))
                      | Some j \<Rightarrow> (j, st3));
          (md3, out) = stringify_bools md2 md2 (stdout st4);
          st5 = st4\<lparr>stdout := out\<rparr>;
          st6 = chroma_upsert category i text md3 emb st5;
          st7 = debug_log (''Created memory '' @ i @ '': '' @ text) ''info'' st6
      in (Inr (), st7))"

subsection \<open>\<^verbatim>\<open>search_memory\<close>\<close>

text \<open>
  The construction of the \<^verbatim>\<open>where\<close> filter from \<^verbatim>\<open>filter_metadata\<close> and \<^verbatim>\<open>unique\<close>, as
  \<^verbatim>\<open>search_memory\<close> does it and \<^verbatim>\<open>get_memories\<close> repeats it: a dictionary of more than one
  key is rewritten into \<^verbatim>\<open>{"$and": [{key: {"$eq": value}}, ...]}\<close>, any other is kept; then,
  if \<^verbatim>\<open>unique\<close>, the key \<^verbatim>\<open>"unique"\<close> is set to \<^verbatim>\<open>"True"\<close> in whatever dictionary that gave.
\<close>

definition where_filter :: "(string \<times> mval) list option \<Rightarrow> bool \<Rightarrow> (string \<times> wval) list option" where
  "where_filter filter_metadata unique =
     (let fm = (case filter_metadata of
                  None \<Rightarrow> None
                | Some d \<Rightarrow>
                    if length d > 1
                    then Some [(''$and'',
                           WList (map (\<lambda>(key, value). WDict [(key, WDict [(''$eq'', WLit value)])]) d))]
                    else Some (map (\<lambda>(key, value). (key, WLit value)) d))
      in if unique
         then Some (dict_set ''unique'' (WLit (MStr ''True''))
                      (case fm of None \<Rightarrow> [] | Some d \<Rightarrow> d))
         else fm)"

definition contains_filter :: "string option \<Rightarrow> (string \<times> string) list option" where
  "contains_filter contains_text = map_option (\<lambda>t. [(''$contains'', t)]) contains_text"

text \<open>
  \<^verbatim>\<open>[res for res in result_list if res["distance"] >= min_distance]\<close> and its sibling: a
  comparison with a distance that is \<^verbatim>\<open>None\<close> raises.
\<close>

definition keep_by_distance :: "(real \<Rightarrow> bool) \<Rightarrow> result list \<Rightarrow> py_error + result list" where
  "keep_by_distance P rs =
     (if list_ex (\<lambda>r. r_distance r = None) rs then Inl TypeError
      else Inr (filter (\<lambda>r. case r_distance r of None \<Rightarrow> False | Some d \<Rightarrow> P d) rs))"

text \<open>The two post-filters of \<^verbatim>\<open>search_memory\<close>, the lower bound first.\<close>

definition distance_window :: "real option \<Rightarrow> real option \<Rightarrow> result list \<Rightarrow> py_error + result list" where
  "distance_window min_distance max_distance result_list =
     (case (case min_distance of
              None \<Rightarrow> Inr result_list
            | Some lo \<Rightarrow> if lo > 0 then keep_by_distance (\<lambda>d. d \<ge> lo) result_list
                         else Inr result_list) of
        Inl e \<Rightarrow> Inl e
      | Inr l1 \<Rightarrow>
          (case max_distance of
             None \<Rightarrow> Inr l1
           | Some hi \<Rightarrow> if hi < 1 then keep_by_distance (\<lambda>d. d \<le> hi) l1 else Inr l1))"

definition search_memory ::
  "string \<Rightarrow> string \<Rightarrow> nat \<Rightarrow> (string \<times> mval) list option \<Rightarrow> string option \<Rightarrow> bool \<Rightarrow> bool \<Rightarrow>
   real option \<Rightarrow> real option \<Rightarrow> bool \<Rightarrow> client \<Rightarrow> (py_error + result list) \<times> client" where
  "search_memory category search_text n_results filter_metadata contains_text
       include_embeddings include_distances max_distance min_distance unique st =
     (let wd = contains_filter contains_text;
          st1 = get_or_create_collection category st;
          (c, st2) = collection_count category st1
      in if c = 0 then (Inr [], st2)
         else
           (let (c', st3) = collection_count category st2;
                n = min n_results c';
                include_types = get_include_types include_embeddings include_distances;
                wh = where_filter filter_metadata unique;
                (q, st4) = chroma_query category search_text wh wd n include_types st3
            in (case q of
                  Inl e \<Rightarrow> (Inl e, st4)
                | Inr query \<Rightarrow>
                    (case distance_window min_distance max_distance
                            (chroma_collection_to_list (flatten_arrays query)) of
                       Inl e \<Rightarrow> (Inl e, st4)
                     | Inr result_list \<Rightarrow>
                         (Inr result_list,
                          debug_log (''Searched memory: '' @ search_text) ''info'' st4)))))"

subsection \<open>\<^verbatim>\<open>create_unique_memory\<close>\<close>


subsection \<open>\<^verbatim>\<open>get_memory\<close> and \<^verbatim>\<open>get_memories\<close>\<close>

definition get_memory ::
  "string \<Rightarrow> string \<Rightarrow> bool \<Rightarrow> client \<Rightarrow> (py_error + result option) \<times> client" where
  "get_memory category i include_embeddings st =
     (let st1 = get_or_create_collection category st;
          include_types = get_include_types include_embeddings False;
          (g, st2) = chroma_get category (Some [i]) None None (Some 1) include_types st1
      in (case g of
            Inl e \<Rightarrow> (Inl e, st2)
          | Inr got \<Rightarrow>
              (let st3 = debug_log (''Got memory '' @ i @ '' from category '' @ category) ''info'' st2
               in (case chroma_collection_to_list got of
                     [] \<Rightarrow> (Inr None,
                            debug_log (''WARNING: Tried to get memory '' @ i @ '' from category ''
                                       @ category @ '' but it does not exist'') ''warning'' st3)
                   | m # rest \<Rightarrow> (Inr (Some m), st3)))))"

text \<open>
  \<^verbatim>\<open>memories.sort(key=lambda x: x["id"], reverse=sort_order == "desc")\<close>: Python's sort is
  stable, also when reversed. Strings compare by code point, lexicographically.
\<close>

definition sort_by_id :: "bool \<Rightarrow> result list \<Rightarrow> result list" where
  "sort_by_id reverse rs = (if reverse then rev (sort_key r_id (rev rs)) else sort_key r_id rs)"

definition get_memories ::
  "string \<Rightarrow> string \<Rightarrow> string option \<Rightarrow> (string \<times> mval) list option \<Rightarrow> nat \<Rightarrow> bool \<Rightarrow> bool \<Rightarrow>
   client \<Rightarrow> (py_error + result list) \<times> client" where
  "get_memories category sort_order contains_text filter_metadata n_results
       include_embeddings unique st =
     (let st1 = get_or_create_collection category st;
          (c, st2) = collection_count category st1;
          n = min n_results c;
          include_types = get_include_types include_embeddings False;
          where_document = contains_filter contains_text;
          wh = where_filter filter_metadata unique;
          (g, st3) = chroma_get category None wh where_document None include_types st2
      in case g of
           Inl e \<Rightarrow> (Inl e, st3)
         | Inr got \<Rightarrow>
             let memories = chroma_collection_to_list got;
                 sorted_memories = sort_by_id (sort_order = ''desc'') memories;
                 kept = take n sorted_memories
             in (Inr kept, debug_log (''Got memories from category '' @ category) ''info'' st3))"

subsection \<open>\<^verbatim>\<open>update_memory\<close>\<close>

text \<open>
  After the check for "nothing to update", the booleans are rewritten if a metadata
  dictionary was given; then \<^verbatim>\<open>metadata["updated_at"] = ...\<close> reads the clock and assigns
  into \<^verbatim>\<open>metadata\<close> whether or not it is \<^verbatim>\<open>None\<close>, and an item assignment on
  \<^verbatim>\<open>None\<close> raises \<^verbatim>\<open>TypeError\<close>.
\<close>

definition update_memory ::
  "string \<Rightarrow> string \<Rightarrow> string option \<Rightarrow> (string \<times> mval) list option \<Rightarrow> client \<Rightarrow>
   (py_error + unit) \<times> client" where
  "update_memory category i text md st =
     (let st1 = get_or_create_collection category st
      in if md = None \<and> text = None
         then (Inl (Exception ''No text or metadata provided''), st1)
         else
           (let (md1, st2) =
                  (case md of
                     None \<Rightarrow> (None, st1)
                   | Some d \<Rightarrow> (let (d', out) = stringify_bools d d (stdout st1)
                                in (Some d', st1\<lparr>stdout := out\<rparr>)));
                (t, st3) = now_timestamp st2
            in (case md1 of
                  None \<Rightarrow> (Inl TypeError, st3)
                | Some d \<Rightarrow>
                    (let md2 = dict_set ''updated_at'' (MNum t) d;
                         st4 = chroma_update category i text (Some md2) st3
                     in (Inr (),
                         debug_log (''Updated memory '' @ i @ '' in category '' @ category)
                           ''info'' st4)))))"

subsection \<open>\<^verbatim>\<open>memory_exists\<close>, \<^verbatim>\<open>delete_memory\<close>, \<^verbatim>\<open>delete_similar_memories\<close>\<close>

definition memory_exists ::
  "string \<Rightarrow> string \<Rightarrow> (string \<times> wval) list option \<Rightarrow> client \<Rightarrow> (py_error + bool) \<times> client" where
  "memory_exists category i includes_metadata st =
     (let st1 = get_or_create_collection category st;
          (g, st2) = chroma_get category (Some [i]) includes_metadata None (Some 1)
                       [''metadatas'', ''documents''] st1
      in (case g of
            Inl e \<Rightarrow> (Inl e, st2)
          | Inr memory \<Rightarrow>
              (let exists = length (ids memory) > 0
               in (Inr exists,
                   debug_log (''Checking if memory '' @ i @ '' exists in category '' @ category
                              @ ''. Exists: '' @ str_bool exists) ''info'' st2))))"

definition delete_memory :: "string \<Rightarrow> string \<Rightarrow> client \<Rightarrow> (py_error + unit) \<times> client" where
  "delete_memory category i st =
     (let st1 = get_or_create_collection category st;
          (e, st2) = memory_exists category i None st1
      in (case e of
            Inl err \<Rightarrow> (Inl err, st2)
          | Inr exists \<Rightarrow>
              if exists = False
              then (Inr (),
                    debug_log (''WARNING: Tried could not delete memory '' @ i @ '' in category ''
                               @ category) ''warning'' st2)
              else (Inr (),
                    debug_log (''Deleted memory '' @ i @ '' in category '' @ category) ''info''
                      (chroma_delete category [i] st2))))"

text \<open>
  The first loop of \<^verbatim>\<open>delete_similar_memories\<close>: ids are collected while the similarity
  \<^verbatim>\<open>1.0 - memory["distance"]\<close> exceeds the threshold, and the loop breaks at the first
  memory that does not.
\<close>

fun collect_similar :: "result list \<Rightarrow> real \<Rightarrow> string list \<Rightarrow> py_error + string list" where
  "collect_similar [] similarity_threshold memories_to_delete = Inr memories_to_delete"
| "collect_similar (m # ms) similarity_threshold memories_to_delete =
     (case r_distance m of
        None \<Rightarrow> Inl TypeError
      | Some d \<Rightarrow>
          if 1 - d > similarity_threshold
          then collect_similar ms similarity_threshold (memories_to_delete @ [r_id m])
          else Inr memories_to_delete)"

text \<open>The second loop: \<^verbatim>\<open>for memory in memories_to_delete: delete_memory(category, memory)\<close>.\<close>

fun delete_each :: "string \<Rightarrow> string list \<Rightarrow> client \<Rightarrow> (py_error + unit) \<times> client" where
  "delete_each category [] st = (Inr (), st)"
| "delete_each category (i # is) st =
     (case delete_memory category i st of
        (Inl e, s) \<Rightarrow> (Inl e, s)
      | (Inr u, s) \<Rightarrow> delete_each category is s)"

definition delete_similar_memories ::
  "string \<Rightarrow> string \<Rightarrow> real \<Rightarrow> client \<Rightarrow> (py_error + bool) \<times> client" where
  "delete_similar_memories category content similarity_threshold st =
     (let (r, st1) = search_memory category content 5 None None True True None None False st
      in (case r of
            Inl e \<Rightarrow> (Inl e, st1)
          | Inr memories \<Rightarrow>
              (case (if length memories > 0
                     then collect_similar memories similarity_threshold []
                     else Inr []) of
                 Inl e \<Rightarrow> (Inl e, st1)
               | Inr memories_to_delete \<Rightarrow>
                   (case (if length memories_to_delete > 0
                          then delete_each category memories_to_delete
                                 (debug_log (''Deleting similar memories to '' @ content
                                             @ '' in category '' @ category) ''info'' st1)
                          else (Inr (), st1)) of
                      (Inl e, s) \<Rightarrow> (Inl e, s)
                    | (Inr u, s) \<Rightarrow>
                        (Inr (length memories_to_delete > 0),
                         debug_log (''WARNING: Tried to delete similar memories to '' @ content
                                    @ '' in category '' @ category @ '' but none were found'')
                           ''warning'' s)))))"

subsection \<open>\<^verbatim>\<open>count_memories\<close>\<close>

text \<open>
  The variable \<^verbatim>\<open>memories\<close> holds the collection, or, after
  \<^verbatim>\<open>memories = memories.get(where={"unique": "True"})\<close>, the dictionary that \<^verbatim>\<open>get\<close>
  returned. A collection has a method \<^verbatim>\<open>count\<close>; a dictionary has none, and calling it
  raises \<^verbatim>\<open>AttributeError\<close>.
\<close>

datatype pyobj = Collection string | GetResult get_result

fun py_count :: "pyobj \<Rightarrow> client \<Rightarrow> (py_error + nat) \<times> client" where
  "py_count (Collection category) st =
     (let (n, s) = collection_count category st in (Inr n, s))"
| "py_count (GetResult g) st = (Inl AttributeError, st)"

definition count_memories :: "string \<Rightarrow> bool \<Rightarrow> client \<Rightarrow> (py_error + nat) \<times> client" where
  "count_memories category unique st =
     (let st1 = get_or_create_collection category st;
          (memories, st2) =
             (if unique
              then (case chroma_get category None (Some [(''unique'', WLit (MStr ''True''))]) None
                           None [''metadatas'', ''documents''] st1 of
                      (Inl e, s) \<Rightarrow> (Inl e, s)
                    | (Inr g, s) \<Rightarrow> (Inr (GetResult g), s))
              else (Inr (Collection category), st1))
      in (case memories of
            Inl e \<Rightarrow> (Inl e, st2)
          | Inr obj \<Rightarrow>
              (case py_count obj st2 of
                 (Inl e, s) \<Rightarrow> (Inl e, s)
               | (Inr n, st3) \<Rightarrow>
                   py_count obj
                     (debug_log (''Counted memories in '' @ category @ '': '' @ str_nat n)
                        ''info'' st3))))"

section \<open>What a search answers\<close>

text \<open>
  The properties below describe a search by the rows the store selects
  (\<open>found_rows\<close>: the nearest \<open>min n count\<close> of the records that pass the filters) and
  by the result record made of each row (\<open>as_result\<close>); \<open>default_search\<close> is the search
  that \<^verbatim>\<open>delete_similar_memories\<close> issues, and \<open>similar_enough\<close> the test of its loop.
\<close>

definition as_result :: "bool \<Rightarrow> bool \<Rightarrow> client \<Rightarrow> string \<Rightarrow> memory \<Rightarrow> result" where
  "as_result include_embeddings include_distances st query_text m =
     \<lparr>r_id = mem_id m, r_document = document m, r_metadata = metadata m,
      r_embedding = (if include_embeddings then Some (embedding m) else None),
      r_distance = (if include_distances then Some (query_distance st query_text m) else None)\<rparr>"

definition found_rows ::
  "client \<Rightarrow> string \<Rightarrow> string \<Rightarrow> nat \<Rightarrow> (string \<times> wval) list option \<Rightarrow>
   (string \<times> string) list option \<Rightarrow> memory list" where
  "found_rows st category query_text n wh wd =
     nearest st query_text (min n (length (records st category)))
       (filter (row_selected wh wd) (records st category))"

definition default_search :: "client \<Rightarrow> string \<Rightarrow> string \<Rightarrow> result list" where
  "default_search st category content =
     map (as_result True True st content) (found_rows st category content 5 None None)"

definition similar_enough :: "real \<Rightarrow> result \<Rightarrow> bool" where
  "similar_enough similarity_threshold m =
     (case r_distance m of None \<Rightarrow> False | Some d \<Rightarrow> 1 - d > similarity_threshold)"

section \<open>What a create stores\<close>

text \<open>
  The record that \<^verbatim>\<open>create_memory\<close> hands to \<^verbatim>\<open>upsert\<close>, in terms of the client it is
  called on: its id (the given one, or the count padded to 16 digits), its metadata (the
  caller's, stamped with the next two clock readings, booleans as strings), and where
  \<^verbatim>\<open>upsert\<close> puts it. \<open>as_got\<close> is the result record that \<^verbatim>\<open>get_memory\<close> makes of a
  stored record.
\<close>

definition stored_metadata :: "client \<Rightarrow> (string \<times> mval) list \<Rightarrow> (string \<times> mval) list" where
  "stored_metadata st md =
     (let md2 = dict_set ''updated_at'' (MNum (clock st (Suc (clock_reads st))))
                  (dict_set ''created_at'' (MNum (clock st (clock_reads st))) md)
      in fst (stringify_bools md2 md2 []))"

definition created_id :: "client \<Rightarrow> string \<Rightarrow> string option \<Rightarrow> string" where
  "created_id st category id0 =
     (case id0 of None \<Rightarrow> zfill (str_nat (length (records st category))) 16 | Some j \<Rightarrow> j)"

definition created_record ::
  "client \<Rightarrow> string \<Rightarrow> string \<Rightarrow> (string \<times> mval) list \<Rightarrow> real list option \<Rightarrow> string option \<Rightarrow> memory" where
  "created_record st category text md emb id0 =
     \<lparr>mem_id = created_id st category id0, document = text, metadata = stored_metadata st md,
      embedding = (case emb of None \<Rightarrow> embed st text | Some e \<Rightarrow> e)\<rparr>"

definition put_record :: "memory \<Rightarrow> memory list \<Rightarrow> memory list" where
  "put_record m ms =
     (if mem_id m \<in> set (map mem_id ms)
      then map (\<lambda>r. if mem_id r = mem_id m then m else r) ms
      else ms @ [m])"

definition as_got :: "bool \<Rightarrow> memory \<Rightarrow> result" where
  "as_got include_embeddings m =
     \<lparr>r_id = mem_id m, r_document = document m, r_metadata = metadata m,
      r_embedding = (if include_embeddings then Some (embedding m) else None),
      r_distance = None\<rparr>"

section \<open>Sequences of operations and the ids they assign\<close>

text \<open>
  \<open>id_of_count n\<close> is the id that a create without id assigns on a collection of \<open>n\<close>
  records, and \<open>dec w n\<close> the decimal digits of \<open>n\<close> at the fixed width \<open>w\<close>. A
  sequence of creates (without id) and deletes is run on one category; the ids assigned are
  read off the \<^verbatim>\<open>upsert\<close> calls the store received. \<open>counted_ids\<close> says that the
  stored ids are the padded counts \<open>0, 1, ...\<close> in order, as they are when every record
  came from a create without id and none was deleted.
\<close>

fun dec :: "nat \<Rightarrow> nat \<Rightarrow> string" where
  "dec 0 n = []"
| "dec (Suc w) n = dec w (n div 10) @ [digit_char (n mod 10)]"

definition id_of_count :: "nat \<Rightarrow> string" where
  "id_of_count n = zfill (str_nat n) 16"

datatype operation = Create string "(string \<times> mval) list" | Delete string

fun apply_operation :: "string \<Rightarrow> operation \<Rightarrow> client \<Rightarrow> client" where
  "apply_operation category (Create text md) st = snd (create_memory category text md None None st)"
| "apply_operation category (Delete i) st = snd (delete_memory category i st)"

fun run :: "string \<Rightarrow> operation list \<Rightarrow> client \<Rightarrow> client" where
  "run category [] st = st"
| "run category (x # xs) st = run category xs (apply_operation category x st)"


fun upserted :: "string \<Rightarrow> call \<Rightarrow> string list" where
  "upserted category (Upsert c i) = (if c = category then [i] else [])"
| "upserted category other = []"

definition assigned_ids :: "string \<Rightarrow> client \<Rightarrow> string list" where
  "assigned_ids category st = concat (map (upserted category) (backend_calls st))"

definition counted_ids :: "client \<Rightarrow> string \<Rightarrow> bool" where
  "counted_ids st category =
     (map mem_id (records st category) = map id_of_count [0..<length (records st category)])"

section \<open>What a unique create looks for\<close>

text \<open>
  \<open>coerce_bool\<close> is what the loop over the metadata does to one value; \<open>is_unique\<close> is
  the flag \<^verbatim>\<open>unique="True"\<close>; \<open>unique_match\<close> is the answer of the search that
  \<^verbatim>\<open>create_unique_memory\<close> issues (one result among the flagged records, kept if its
  distance is within \<^verbatim>\<open>max_distance\<close>, a bound that \<^verbatim>\<open>search_memory\<close> applies only
  below 1); \<open>flags\<close> reads the id and the two annotations off a record.
\<close>

definition coerce_bool :: "mval \<Rightarrow> mval" where
  "coerce_bool v = (case v of MBool b \<Rightarrow> MStr (str_bool b) | _ \<Rightarrow> v)"



definition flags :: "memory \<Rightarrow> string \<times> mval option \<times> mval option" where
  "flags m = (mem_id m, dict_get (metadata m) ''unique'', dict_get (metadata m) ''related_to'')"

section \<open>Example clients\<close>

text \<open>
  A client with no collection yet. Texts are embedded by their length, and the distance
  of two embeddings is a tenth of their difference, capped at one; the \<open>n\<close>-th clock
  reading is \<open>n\<close>.
\<close>

definition empty_client :: client where
  "empty_client =
     \<lparr>collections = Map.empty,
      embed = (\<lambda>s. [real (length s)]),
      distance = (\<lambda>a b. min 1 (\<bar>sum_list a - sum_list b\<bar> / 10)),
      clock = (\<lambda>n. real n),
      clock_reads = 0,
      backend_calls = [],
      debug_logs = [],
      stdout = []\<rparr>"

definition note_a :: memory where
  "note_a = \<lparr>mem_id = ''0000000000000000'', document = ''a'',
             metadata = [(''unique'', MStr ''True''), (''created_at'', MNum 0), (''updated_at'', MNum 1)],
             embedding = [1]\<rparr>"

definition one_note_client :: client where
  "one_note_client = empty_client\<lparr>collections := [''notes'' \<mapsto> [note_a]]\<rparr>"

text \<open>Records without metadata, embedded by the length of their text as above.\<close>

definition plain_note :: "string \<Rightarrow> string \<Rightarrow> memory" where
  "plain_note i text = \<lparr>mem_id = i, document = text, metadata = [], embedding = [real (length text)]\<rparr>"

definition six_notes_client :: client where
  "six_notes_client =
     empty_client\<lparr>collections :=
       [''notes'' \<mapsto> [plain_note ''1'' ''a'', plain_note ''2'' ''a'', plain_note ''3'' ''a'',
                      plain_note ''4'' ''a'', plain_note ''5'' ''a'', plain_note ''6'' ''a'']]\<rparr>"


text \<open>
  A category whose only memory has the id \<^verbatim>\<open>0000000000000001\<close>: what is left when two
  memories were created and the first was deleted.
\<close>

definition note_b :: memory where
  "note_b = \<lparr>mem_id = ''0000000000000001'', document = ''b'',
             metadata = [(''unique'', MStr ''True''), (''created_at'', MNum 2), (''updated_at'', MNum 3)],
             embedding = [1]\<rparr>"

definition lone_note_client :: client where
  "lone_note_client = empty_client\<lparr>collections := [''notes'' \<mapsto> [note_b]]\<rparr>"

section \<open>Properties\<close>

subsection \<open>What each store call does to the records\<close>

lemma records_issue [simp]: "records (issue c st) category = records st category"
  by (simp add: records_def issue_def)

lemma records_debug_log [simp]: "records (debug_log m t st) category = records st category"
  by (simp add: records_def debug_log_def)

lemma records_get_or_create [simp]:
  "records (get_or_create_collection c st) category = records st category"
  by (simp add: records_def get_or_create_collection_def issue_def split: option.splits)

lemma records_now [simp]: "records (snd (now_timestamp st)) category = records st category"
  by (simp add: records_def now_timestamp_def)

lemma filters_valid_unique [simp]:
  "filters_valid (Some [(''unique'', WLit (MStr ''True''))]) None"
  by (simp add: filters_valid_def)

subsection \<open>\<^verbatim>\<open>update_memory\<close>\<close>

lemma update_memory_nothing_given:
  "update_memory category i None None st =
     (Inl (Exception ''No text or metadata provided''), get_or_create_collection category st)"
  by (simp add: update_memory_def)

text \<open>
  C1. The claim has \<^verbatim>\<open>update\<close> succeed whenever a text or a metadata dictionary is given,
  also when only the text is. With a text and no metadata the code gets past the check for
  missing arguments and then assigns \<^verbatim>\<open>updated_at\<close> into the metadata, which is
  \<^verbatim>\<open>None\<close>: the call raises \<^verbatim>\<open>TypeError\<close> on every client, and no record of the
  category has changed. With neither given the call fails as claimed
  (\<open>update_memory_nothing_given\<close>), and with a metadata dictionary it succeeds
  (\<open>update_memory_with_metadata\<close>).
\<close>

theorem update_memory_text_only_raises:
  "fst (update_memory category i (Some text) None st) = Inl TypeError \<and>
   records (snd (update_memory category i (Some text) None st)) category = records st category"
  by (simp add: update_memory_def Let_def now_timestamp_def records_def
        get_or_create_collection_def issue_def split: option.splits)

theorem update_memory_text_only_raises_witness:
  "fst (update_memory ''notes'' ''0000000000000000'' (Some ''b'') None one_note_client)
     = Inl TypeError \<and>
   records (snd (update_memory ''notes'' ''0000000000000000'' (Some ''b'') None one_note_client))
     ''notes'' = [note_a]"
  using update_memory_text_only_raises [of "''notes''" "''0000000000000000''" "''b''" one_note_client]
  by (simp add: records_def one_note_client_def)

subsection \<open>\<^verbatim>\<open>count_memories\<close>\<close>

lemma count_memories_total:
  "fst (count_memories category False st) = Inr (length (records st category))"
  by (simp add: count_memories_def Let_def collection_count_def)

text \<open>
  C4. The claim has \<^verbatim>\<open>count(category, unique=true)\<close> return the number of records
  flagged unique, without raising. The code replaces the collection by the dictionary
  that \<^verbatim>\<open>get\<close> returns and then calls \<^verbatim>\<open>count()\<close> on it: with \<^verbatim>\<open>unique\<close> set, the
  call raises \<^verbatim>\<open>AttributeError\<close> on every category and every client.
\<close>

theorem count_memories_unique_raises:
  "fst (count_memories category True st) = Inl AttributeError"
  by (simp add: count_memories_def chroma_get_def Let_def)

theorem count_memories_unique_raises_witness:
  "fst (count_memories ''notes'' True one_note_client) = Inl AttributeError"
  using count_memories_unique_raises [of "''notes''" one_note_client] by simp

subsection \<open>\<^verbatim>\<open>delete_memory\<close>\<close>

lemma chroma_get_by_id:
  "chroma_get category (Some [i]) None None (Some n) include st =
     (Inr \<lparr>ids = map mem_id (take n (filter (\<lambda>m. mem_id m = i) (records st category))),
           documents = map document (take n (filter (\<lambda>m. mem_id m = i) (records st category))),
           metadatas = map metadata (take n (filter (\<lambda>m. mem_id m = i) (records st category))),
           embeddings = (if ''embeddings'' \<in> set include
                         then Some (map embedding (take n (filter (\<lambda>m. mem_id m = i) (records st category))))
                         else None),
           distances = None\<rparr>, issue (Get category) st)"
  by (simp add: chroma_get_def Let_def filters_valid_def row_selected_def)

lemma take_filter_nonempty: "0 < n \<Longrightarrow> (take n (filter P xs) \<noteq> []) = (\<exists>x\<in>set xs. P x)"
  by (cases n) (auto simp: filter_empty_conv)

lemma memory_exists_plain:
  "memory_exists category i None st =
     (Inr (i \<in> mem_id ` set (records st category)),
      debug_log (''Checking if memory '' @ i @ '' exists in category '' @ category
                 @ ''. Exists: '' @ str_bool (i \<in> mem_id ` set (records st category))) ''info''
        (issue (Get category) (get_or_create_collection category st)))"
proof -
  have "(take 1 (filter (\<lambda>m. mem_id m = i) (records st category)) \<noteq> [])
          = (i \<in> mem_id ` set (records st category))"
    by (subst take_filter_nonempty) auto
  then show ?thesis
    by (simp add: memory_exists_def chroma_get_by_id Let_def)
qed

lemma records_chroma_delete:
  "records (chroma_delete category is st) c =
     (if c = category then filter (\<lambda>r. mem_id r \<notin> set is) (records st category) else records st c)"
  by (simp add: chroma_delete_def records_def issue_def)

lemma filter_absent: "i \<notin> f ` set xs \<Longrightarrow> filter (\<lambda>r. f r \<noteq> i) xs = xs"
  by (induction xs) auto

lemma fst_delete_memory: "fst (delete_memory category i st) = Inr ()"
  by (simp add: delete_memory_def memory_exists_plain Let_def)

lemma records_delete_memory:
  "records (snd (delete_memory category i st)) c =
     (if c = category then filter (\<lambda>r. mem_id r \<noteq> i) (records st category) else records st c)"
  by (simp add: delete_memory_def memory_exists_plain Let_def records_chroma_delete filter_absent)

lemma delete_memory_missing:
  "i \<notin> mem_id ` set (records st category) \<Longrightarrow>
   snd (delete_memory category i st) =
     debug_log (''WARNING: Tried could not delete memory '' @ i @ '' in category '' @ category) ''warning''
       (debug_log (''Checking if memory '' @ i @ '' exists in category '' @ category @ ''. Exists: False'') ''info''
          (issue (Get category) (get_or_create_collection category (get_or_create_collection category st))))"
  by (simp add: delete_memory_def memory_exists_plain Let_def str_bool_def)

text \<open>
  C9. \<^verbatim>\<open>delete(category, id)\<close> never raises. On an id that is not stored it leaves the
  records of the category as they are, so the count is the same; no \<^verbatim>\<open>delete\<close> is sent
  to the store (the calls are the two \<^verbatim>\<open>get_or_create_collection\<close> and the lookup), and
  what is logged is the finding of the lookup followed by the warning. On a stored id the
  record is removed and the others stay.
\<close>

theorem delete_memory_missing_or_present:
  "fst (delete_memory category i st) = Inr () \<and>
   (i \<notin> mem_id ` set (records st category) \<longrightarrow>
      records (snd (delete_memory category i st)) category = records st category \<and>
      fst (count_memories category False (snd (delete_memory category i st)))
        = fst (count_memories category False st) \<and>
      debug_logs (snd (delete_memory category i st)) =
        debug_logs st @
        [(''info'', ''Checking if memory '' @ i @ '' exists in category '' @ category @ ''. Exists: False''),
         (''warning'', ''WARNING: Tried could not delete memory '' @ i @ '' in category '' @ category)] \<and>
      backend_calls (snd (delete_memory category i st)) =
        backend_calls st @
        [GetOrCreateCollection category, GetOrCreateCollection category, Get category]) \<and>
   (i \<in> mem_id ` set (records st category) \<longrightarrow>
      i \<notin> mem_id ` set (records (snd (delete_memory category i st)) category) \<and>
      records (snd (delete_memory category i st)) category
        = filter (\<lambda>r. mem_id r \<noteq> i) (records st category))"
proof (intro conjI impI)
  show "fst (delete_memory category i st) = Inr ()"
    by (rule fst_delete_memory)
next
  assume missing: "i \<notin> mem_id ` set (records st category)"
  show "records (snd (delete_memory category i st)) category = records st category"
    using missing by (simp add: records_delete_memory filter_absent)
  then show "fst (count_memories category False (snd (delete_memory category i st)))
               = fst (count_memories category False st)"
    by (simp add: count_memories_total)
  show "debug_logs (snd (delete_memory category i st)) =
          debug_logs st @
          [(''info'', ''Checking if memory '' @ i @ '' exists in category '' @ category @ ''. Exists: False''),
           (''warning'', ''WARNING: Tried could not delete memory '' @ i @ '' in category '' @ category)]"
    using missing
    by (simp add: delete_memory_missing debug_log_def issue_def get_or_create_collection_def
          split: option.splits)
  show "backend_calls (snd (delete_memory category i st)) =
          backend_calls st @
          [GetOrCreateCollection category, GetOrCreateCollection category, Get category]"
    using missing
    by (simp add: delete_memory_missing debug_log_def issue_def get_or_create_collection_def
          split: option.splits)
next
  assume "i \<in> mem_id ` set (records st category)"
  show "i \<notin> mem_id ` set (records (snd (delete_memory category i st)) category)"
    by (auto simp: records_delete_memory)
  show "records (snd (delete_memory category i st)) category
          = filter (\<lambda>r. mem_id r \<noteq> i) (records st category)"
    by (simp add: records_delete_memory)
qed


theorem delete_memory_missing_or_present_witness:
  "fst (delete_memory ''notes'' ''0000000000000007'' one_note_client) = Inr () \<and>
   records (snd (delete_memory ''notes'' ''0000000000000007'' one_note_client)) ''notes'' = [note_a] \<and>
   records (snd (delete_memory ''notes'' ''0000000000000000'' one_note_client)) ''notes'' = []"
  using delete_memory_missing_or_present [of "''notes''" "''0000000000000007''" one_note_client]
        delete_memory_missing_or_present [of "''notes''" "''0000000000000000''" one_note_client]
  by (simp add: records_def one_note_client_def note_a_def)

subsection \<open>\<^verbatim>\<open>search_memory\<close>\<close>

lemma include_types_mem [simp]:
  "''embeddings'' \<in> set (get_include_types ie idist) = ie"
  "''distances'' \<in> set (get_include_types ie idist) = idist"
  by (simp_all add: get_include_types_def)

lemma to_list_of_rows:
  "chroma_collection_to_list (flatten_arrays
       \<lparr>q_ids = [map mem_id rows], q_documents = [map document rows],
        q_metadatas = [map metadata rows],
        q_embeddings = (if ie then Some [map embedding rows] else None),
        q_distances = (if idist then Some [map (query_distance st text) rows] else None)\<rparr>)
     = map (as_result ie idist st text) rows"
  by (cases ie; cases idist; induction rows)
     (simp_all add: chroma_collection_to_list_def flatten_arrays_def column_def as_result_def)

lemma query_state [simp]:
  "query_distance (issue c st) = query_distance st"
  "query_distance (get_or_create_collection category st) = query_distance st"
  by (auto simp: query_distance_def issue_def get_or_create_collection_def fun_eq_iff split: option.splits)

lemma nearest_state [simp]:
  "nearest (issue c st) = nearest st"
  "nearest (get_or_create_collection category st) = nearest st"
  by (simp_all add: nearest_def fun_eq_iff)

lemma as_result_state [simp]:
  "as_result ie idist (issue c st) = as_result ie idist st"
  "as_result ie idist (get_or_create_collection category st) = as_result ie idist st"
  by (simp_all add: as_result_def fun_eq_iff)

lemma fst_search_memory:
  "fst (search_memory category text n fm ct ie idist maxd mind unique st) =
     (if records st category = [] then Inr []
      else if \<not> filters_valid (where_filter fm unique) (contains_filter ct) then Inl ValueError
      else distance_window mind maxd
             (map (as_result ie idist st text)
                (found_rows st category text n (where_filter fm unique) (contains_filter ct))))"
  by (simp add: search_memory_def Let_def collection_count_def chroma_query_def to_list_of_rows
        found_rows_def split: sum.splits)

lemma records_search_memory [simp]:
  "records (snd (search_memory category text n fm ct ie idist maxd mind unique st)) c = records st c"
  by (simp add: search_memory_def Let_def collection_count_def chroma_query_def
        split: sum.splits)


subsection \<open>\<^verbatim>\<open>delete_similar_memories\<close>\<close>

lemma collect_similar_prefix:
  "list_all (\<lambda>r. r_distance r \<noteq> None) rs \<Longrightarrow>
   collect_similar rs thr acc = Inr (acc @ map r_id (takeWhile (similar_enough thr) rs))"
  by (induction rs arbitrary: acc) (auto simp: similar_enough_def)

lemma delete_memory_pair:
  "delete_memory category i st = (Inr (), snd (delete_memory category i st))"
  by (metis fst_delete_memory prod.collapse)

lemma fst_delete_each: "fst (delete_each category is st) = Inr ()"
proof (induction "is" arbitrary: st)
  case Nil
  show ?case by simp
next
  case (Cons i "is")
  show ?case
    by (subst delete_each.simps, subst delete_memory_pair) (simp add: Cons.IH)
qed

lemma records_delete_each:
  "records (snd (delete_each category is st)) c =
     (if c = category then filter (\<lambda>r. mem_id r \<notin> set is) (records st category)
      else records st c)"
proof (induction "is" arbitrary: st)
  case Nil
  show ?case by simp
next
  case (Cons i "is")
  show ?case
    by (subst delete_each.simps, subst delete_memory_pair)
       (auto simp: Cons.IH records_delete_memory intro: filter_cong)
qed

lemma delete_each_pair:
  "delete_each category is st = (Inr (), snd (delete_each category is st))"
  by (metis fst_delete_each prod.collapse)

lemma distance_window_none [simp]: "distance_window None None rs = Inr rs"
  by (simp add: distance_window_def)

lemma filters_valid_none [simp]: "filters_valid None None"
  by (simp add: filters_valid_def)

lemma where_filter_none [simp]: "where_filter None False = None"
  by (simp add: where_filter_def)

lemma contains_filter_none [simp]: "contains_filter None = None"
  by (simp add: contains_filter_def)

lemma found_rows_empty [simp]: "records st category = [] \<Longrightarrow> found_rows st category text n wh wd = []"
  by (simp add: found_rows_def nearest_def)

lemma fst_default_search:
  "fst (search_memory category content 5 None None True True None None False st)
     = Inr (default_search st category content)"
  by (simp add: fst_search_memory default_search_def)

lemma default_search_distances: "list_all (\<lambda>r. r_distance r \<noteq> None) (default_search st category content)"
  by (simp add: default_search_def list_all_iff as_result_def)

lemma search_memory_pair:
  "search_memory category text n fm ct ie idist maxd mind unique st =
     (fst (search_memory category text n fm ct ie idist maxd mind unique st),
      snd (search_memory category text n fm ct ie idist maxd mind unique st))"
  by simp


lemma records_delete_similar:
  "records (snd (delete_similar_memories category content thr st)) category =
     filter (\<lambda>r. mem_id r \<notin> r_id ` set (takeWhile (similar_enough thr) (default_search st category content)))
       (records st category)"
  apply (simp only: delete_similar_memories_def Let_def)
  apply (subst search_memory_pair)
  apply (simp only: fst_default_search prod.case sum.case)
  apply (simp add: collect_similar_prefix [OF default_search_distances])
  apply (intro conjI impI)
  apply (subst delete_each_pair)
  apply (simp add: records_delete_each)
  done



lemma found_rows_length: "length (found_rows st category text n wh wd) \<le> n"
  by (simp add: found_rows_def nearest_def)







lemma filter_by_ids_length:
  assumes "distinct (map f xs)"
  shows "length (filter (\<lambda>r. f r \<in> set is) xs) \<le> length is"
proof -
  have "distinct (map f (filter (\<lambda>r. f r \<in> set is) xs))"
    using assms by (rule distinct_map_filter)
  then have "length (filter (\<lambda>r. f r \<in> set is) xs)
               = card (set (map f (filter (\<lambda>r. f r \<in> set is) xs)))"
    by (metis distinct_card length_map)
  also have "\<dots> \<le> card (set is)"
    by (rule card_mono) auto
  also have "\<dots> \<le> length is" by (rule card_length)
  finally show ?thesis .
qed

text \<open>
  C10. A call of \<^verbatim>\<open>delete_similar_memories\<close> removes at most five records (its
  candidates come from a search with the default \<^verbatim>\<open>n_results=5\<close>) and adds none. In the
  witness six stored memories all exceed the threshold and one is left.
\<close>

theorem delete_similar_memories_at_most_five:
  assumes "distinct (map mem_id (records st category))"
  shows "length (records st category)
           \<le> length (records (snd (delete_similar_memories category content thr st)) category) + 5 \<and>
         set (records (snd (delete_similar_memories category content thr st)) category)
           \<subseteq> set (records st category)"
proof -
  let ?R = "default_search st category content"
  let ?ids = "map r_id (takeWhile (similar_enough thr) ?R)"
  let ?after = "records (snd (delete_similar_memories category content thr st)) category"
  have after: "?after = filter (\<lambda>r. mem_id r \<notin> set ?ids) (records st category)"
    by (simp add: records_delete_similar)
  have "length ?ids \<le> length ?R"
    by (simp add: length_takeWhile_le)
  also have "\<dots> \<le> 5"
    by (simp add: default_search_def found_rows_length)
  finally have five: "length ?ids \<le> 5" .
  have "length (records st category)
          = length (filter (\<lambda>r. mem_id r \<in> set ?ids) (records st category)) + length ?after"
    unfolding after by (rule sum_length_filter_compl [symmetric])
  moreover have "length (filter (\<lambda>r. mem_id r \<in> set ?ids) (records st category)) \<le> length ?ids"
    using assms by (rule filter_by_ids_length)
  ultimately have "length (records st category) \<le> length ?after + 5"
    using five by linarith
  moreover have "set ?after \<subseteq> set (records st category)"
    unfolding after by auto
  ultimately show ?thesis by blast
qed






lemmas run_search =
  records_def default_search_def found_rows_def nearest_def query_distance_def
  row_selected_def as_result_def similar_enough_def plain_note_def empty_client_def

theorem delete_similar_memories_at_most_five_witness:
  "distinct (map mem_id (records six_notes_client ''notes'')) \<and>
   length (records six_notes_client ''notes'') = 6 \<and>
   list_all (similar_enough 0.95) (default_search six_notes_client ''notes'' ''a'') \<and>
   map mem_id (records (snd (delete_similar_memories ''notes'' ''a'' 0.95 six_notes_client)) ''notes'')
     = [''6'']"
proof -
  have h: "distinct (map mem_id (records six_notes_client ''notes''))"
    by (simp add: records_def six_notes_client_def plain_note_def)
  have n: "length (records six_notes_client ''notes'') = 6"
    by (simp add: records_def six_notes_client_def)
  have s: "list_all (similar_enough 0.95) (default_search six_notes_client ''notes'' ''a'')"
    by (simp add: run_search six_notes_client_def)
  have "r_id ` set (takeWhile (similar_enough 0.95) (default_search six_notes_client ''notes'' ''a''))
          = {''1'', ''2'', ''3'', ''4'', ''5''}"
    by (simp add: run_search six_notes_client_def)
  then have "records (snd (delete_similar_memories ''notes'' ''a'' 0.95 six_notes_client)) ''notes''
               = filter (\<lambda>r. mem_id r \<notin> {''1'', ''2'', ''3'', ''4'', ''5''})
                   (records six_notes_client ''notes'')"
    by (simp add: records_delete_similar)
  then have "map mem_id (records (snd (delete_similar_memories ''notes'' ''a'' 0.95 six_notes_client)) ''notes'')
               = [''6'']"
    by (simp add: records_def six_notes_client_def plain_note_def)
  with delete_similar_memories_at_most_five [OF h, of "''a''" "0.95"] n h s
  show ?thesis by simp
qed


subsection \<open>The \<^verbatim>\<open>where\<close> filter\<close>

lemma where_filter_multi_key:
  "1 < length fm \<Longrightarrow>
   where_filter (Some fm) False =
     Some [(''$and'', WList (map (\<lambda>(key, value). WDict [(key, WDict [(''$eq'', WLit value)])]) fm))]"
  by (simp add: where_filter_def)

lemma where_holds_conjunction:
  "where_holds (WDict [(''$and'', WList (map (\<lambda>(key, value). WDict [(key, WDict [(''$eq'', WLit value)])]) fm))]) md
     = list_all (\<lambda>(key, value). dict_get md key = Some value) fm"
  by (induction fm) (auto simp: list_all_iff)

lemma where_filter_unique_only:
  "where_filter None True = Some [(''unique'', WLit (MStr ''True''))]"
  by (simp add: where_filter_def)

lemma contains_filter_some:
  "contains_filter (Some t) = Some [(''$contains'', t)] \<and>
   validate_where_document [(''$contains'', t)] \<and>
   where_document_holds [(''$contains'', t)] doc = contains_str t doc"
  by (simp add: contains_filter_def validate_where_document_def where_document_holds_def)

text \<open>
  C3. The claim has \<^verbatim>\<open>unique=true\<close> yield a well-formed filter also together with a
  \<^verbatim>\<open>filter_metadata\<close> of several keys. The code first rewrites such a dictionary into
  \<^verbatim>\<open>{"$and": [...]}\<close> and then sets the key \<^verbatim>\<open>"unique"\<close> in the result: the filter is a
  dictionary of two keys, \<^verbatim>\<open>"$and"\<close> and \<^verbatim>\<open>"unique"\<close>, which is no expression of the
  filter language. The other parts of the claim hold: without \<^verbatim>\<open>unique\<close> several keys
  become the conjunction of their equality clauses (\<open>where_filter_multi_key\<close>,
  \<open>where_holds_conjunction\<close>), \<^verbatim>\<open>unique\<close> alone gives the clause on
  \<^verbatim>\<open>unique="True"\<close> (\<open>where_filter_unique_only\<close>), and \<^verbatim>\<open>contains_text\<close> becomes a
  \<^verbatim>\<open>$contains\<close> clause (\<open>contains_filter_some\<close>).
\<close>

theorem where_filter_unique_multi_key:
  "1 < length fm \<Longrightarrow>
   where_filter (Some fm) True =
     Some [(''$and'', WList (map (\<lambda>(key, value). WDict [(key, WDict [(''$eq'', WLit value)])]) fm)),
           (''unique'', WLit (MStr ''True''))] \<and>
   \<not> filters_valid (where_filter (Some fm) True) (contains_filter contains_text)"
  by (simp add: where_filter_def filters_valid_def)

theorem where_filter_unique_multi_key_witness:
  "where_filter (Some [(''a'', MStr ''1''), (''b'', MStr ''2'')]) True =
     Some [(''$and'', WList [WDict [(''a'', WDict [(''$eq'', WLit (MStr ''1''))])],
                            WDict [(''b'', WDict [(''$eq'', WLit (MStr ''2''))])]]),
           (''unique'', WLit (MStr ''True''))] \<and>
   \<not> filters_valid (where_filter (Some [(''a'', MStr ''1''), (''b'', MStr ''2'')]) True) None"
  using where_filter_unique_multi_key [of "[(''a'', MStr ''1''), (''b'', MStr ''2'')]" None]
  by (simp add: where_filter_def filters_valid_def)

lemma search_memory_unique_multi_key_raises:
  "1 < length fm \<Longrightarrow> records st category \<noteq> [] \<Longrightarrow>
   fst (search_memory category text n (Some fm) ct ie idist maxd mind True st) = Inl ValueError"
  by (simp add: fst_search_memory where_filter_def filters_valid_def)

lemma where_filter_unique_single_key:
  "key \<noteq> ''unique'' \<Longrightarrow>
   where_filter (Some [(key, value)]) True = Some [(key, WLit value), (''unique'', WLit (MStr ''True''))] \<and>
   \<not> filters_valid (where_filter (Some [(key, value)]) True) wd"
  by (simp add: where_filter_def filters_valid_def)

subsection \<open>An empty category\<close>

lemma search_memory_empty:
  "records st category = [] \<Longrightarrow>
   search_memory category text n fm ct ie idist maxd mind unique st =
     (Inr [], issue (Count category) (get_or_create_collection category st))"
  by (simp add: search_memory_def Let_def collection_count_def)

lemma backend_calls_get_or_create [simp]:
  "backend_calls (get_or_create_collection category st) = backend_calls st @ [GetOrCreateCollection category]"
  by (simp add: get_or_create_collection_def issue_def split: option.splits)

lemma backend_calls_issue [simp]: "backend_calls (issue c st) = backend_calls st @ [c]"
  by (simp add: issue_def)

lemma backend_calls_debug_log [simp]: "backend_calls (debug_log m t st) = backend_calls st"
  by (simp add: debug_log_def)

lemma to_list_empty [simp]:
  "chroma_collection_to_list \<lparr>ids = [], documents = [], metadatas = [], embeddings = e, distances = d\<rparr> = []"
  by (simp add: chroma_collection_to_list_def)

lemma sort_by_id_empty [simp]: "sort_by_id b [] = []"
  by (simp add: sort_by_id_def)

text \<open>
  C8, as the code has it. On a category without records \<^verbatim>\<open>search\<close> returns the empty
  list after \<^verbatim>\<open>get_or_create_collection\<close> and \<^verbatim>\<open>count\<close>, with no query sent.
  \<^verbatim>\<open>get_many\<close> has no such early return: it sends the fetch to the store, and returns
  the empty list that the fetch finds (or fails as the store does on an ill-formed
  filter).
\<close>

theorem empty_category_search_and_get_many:
  "records st category = [] \<Longrightarrow>
   fst (search_memory category text n fm ct ie idist maxd mind unique st) = Inr [] \<and>
   backend_calls (snd (search_memory category text n fm ct ie idist maxd mind unique st))
     = backend_calls st @ [GetOrCreateCollection category, Count category] \<and>
   backend_calls (snd (get_memories category sort_order ct fm n ie unique st))
     = backend_calls st @ [GetOrCreateCollection category, Count category, Get category] \<and>
   fst (get_memories category sort_order ct fm n ie unique st)
     = (if filters_valid (where_filter fm unique) (contains_filter ct) then Inr [] else Inl ValueError)"
  by (simp add: search_memory_empty get_memories_def Let_def collection_count_def chroma_get_def)

text \<open>
  Counterexample to C8 as claimed: on the empty client \<^verbatim>\<open>get_many\<close> returns the empty
  list, and it has issued the fetch.
\<close>

theorem empty_category_get_many_fetches:
  "records empty_client ''notes'' = [] \<and>
   fst (get_memories ''notes'' ''desc'' None None 20 True False empty_client) = Inr [] \<and>
   Get ''notes'' \<in> set (backend_calls (snd (get_memories ''notes'' ''desc'' None None 20 True False empty_client)))"
  by (simp add: get_memories_def Let_def collection_count_def chroma_get_def records_def empty_client_def
        get_or_create_collection_def issue_def debug_log_def)

theorem empty_category_search_and_get_many_witness:
  "records empty_client ''notes'' = [] \<and>
   fst (search_memory ''notes'' ''a'' 5 None None True True None None False empty_client) = Inr [] \<and>
   backend_calls (snd (search_memory ''notes'' ''a'' 5 None None True True None None False empty_client))
     = [GetOrCreateCollection ''notes'', Count ''notes''] \<and>
   backend_calls (snd (get_memories ''notes'' ''desc'' None None 20 True False empty_client))
     = [GetOrCreateCollection ''notes'', Count ''notes'', Get ''notes''] \<and>
   fst (get_memories ''notes'' ''desc'' None None 20 True False empty_client) = Inr []"
proof -
  have h: "records empty_client ''notes'' = []"
    by (simp add: records_def empty_client_def)
  have c: "backend_calls empty_client = []"
    by (simp add: empty_client_def)
  show ?thesis
    using h empty_category_search_and_get_many [OF h, of "''a''" 5 None None True True None None False "''desc''"]
      empty_category_search_and_get_many [OF h, of "''a''" 20 None None True True None None False "''desc''"]
    by (simp add: c)
qed

subsection \<open>\<^verbatim>\<open>create_memory\<close> and \<^verbatim>\<open>get_memory\<close>\<close>

lemma stringify_bools_out: "fst (stringify_bools items md out) = fst (stringify_bools items md out')"
  by (induction items md out arbitrary: out' rule: stringify_bools.induct) auto


lemma records_chroma_upsert:
  "records (chroma_upsert category i text md emb st) c =
     (if c = category
      then put_record \<lparr>mem_id = i, document = text, metadata = md,
                        embedding = (case emb of None \<Rightarrow> embed st text | Some e \<Rightarrow> e)\<rparr>
             (records st category)
      else records st c)"
  by (simp add: chroma_upsert_def Let_def records_def issue_def put_record_def)

lemma records_create_memory:
  "records (snd (create_memory category text md emb id0 st)) c =
     (if c = category
      then put_record (created_record st category text md emb id0) (records st category)
      else records st c)"
proof -
  have out: "\<And>items d. fst (stringify_bools items d (stdout st)) = fst (stringify_bools items d [])"
    by (rule stringify_bools_out)
  show ?thesis
    by (simp add: create_memory_def Let_def split_beta chroma_upsert_def put_record_def
        created_record_def created_id_def stored_metadata_def now_timestamp_def debug_log_def
        collection_count_def get_or_create_collection_def issue_def records_def out
        split: option.splits)
qed


lemma to_list_of_got:
  "chroma_collection_to_list
       \<lparr>ids = map mem_id rows, documents = map document rows, metadatas = map metadata rows,
        embeddings = (if ie then Some (map embedding rows) else None), distances = None\<rparr>
     = map (as_got ie) rows"
  by (cases ie; induction rows)
     (simp_all add: chroma_collection_to_list_def column_def as_got_def)

lemma fst_get_memory:
  "fst (get_memory category i ie st) =
     Inr (case filter (\<lambda>m. mem_id m = i) (records st category) of
            [] \<Rightarrow> None
          | m # rest \<Rightarrow> Some (as_got ie m))"
  by (simp add: get_memory_def chroma_get_by_id Let_def to_list_of_got take_Suc
        split: list.splits)

lemma filter_put_record:
  "\<exists>rest. filter (\<lambda>r. mem_id r = mem_id m) (put_record m ms) = m # rest"
proof (cases "mem_id m \<in> set (map mem_id ms)")
  case False
  then have "\<forall>r\<in>set ms. mem_id r \<noteq> mem_id m"
    by (metis image_eqI set_map)
  then have "filter (\<lambda>r. mem_id r = mem_id m) ms = []"
    by (simp add: filter_empty_conv)
  with False show ?thesis by (simp add: put_record_def)
next
  case True
  have "filter (\<lambda>r. mem_id r = mem_id m) (map (\<lambda>r. if mem_id r = mem_id m then m else r) ms)
          = replicate (length (filter (\<lambda>r. mem_id r = mem_id m) ms)) m"
    by (induction ms) auto
  moreover from True have "filter (\<lambda>r. mem_id r = mem_id m) ms \<noteq> []"
    by (auto simp: filter_empty_conv)
  ultimately show ?thesis
    using True by (cases "filter (\<lambda>r. mem_id r = mem_id m) ms") (simp_all add: put_record_def)
qed

lemma get_after_create:
  "fst (get_memory category (created_id st category id0) ie
          (snd (create_memory category text md emb id0 st)))
     = Inr (Some (as_got ie (created_record st category text md emb id0)))"
proof -
  let ?m = "created_record st category text md emb id0"
  have i: "created_id st category id0 = mem_id ?m"
    by (simp add: created_record_def)
  obtain rest where "filter (\<lambda>r. mem_id r = mem_id ?m) (put_record ?m (records st category)) = ?m # rest"
    using filter_put_record by blast
  then show ?thesis
    by (simp add: fst_get_memory records_create_memory i)
qed

text \<open>
  C7, as the code has it. After \<^verbatim>\<open>create(category, "x", {"k": "v"})\<close>, \<^verbatim>\<open>get\<close> with the
  id the create assigned returns the record with document \<^verbatim>\<open>"x"\<close> and metadata
  \<^verbatim>\<open>k = "v"\<close>, \<^verbatim>\<open>created_at\<close> and \<^verbatim>\<open>updated_at\<close>. The two timestamps are two
  readings of the clock, one after the other: they are equal exactly when the clock
  gave the same reading twice.
\<close>

theorem create_then_get:
  "fst (get_memory category (zfill (str_nat (length (records st category))) 16) include_embeddings
          (snd (create_memory category ''x'' [(''k'', MStr ''v'')] None None st)))
     = Inr (Some
         \<lparr>r_id = zfill (str_nat (length (records st category))) 16,
          r_document = ''x'',
          r_metadata = [(''k'', MStr ''v''),
                        (''created_at'', MNum (clock st (clock_reads st))),
                        (''updated_at'', MNum (clock st (Suc (clock_reads st))))],
          r_embedding = (if include_embeddings then Some (embed st ''x'') else None),
          r_distance = None\<rparr>)"
  using get_after_create [of category st None include_embeddings "''x''" "[(''k'', MStr ''v'')]" None]
  by (simp add: created_id_def as_got_def created_record_def stored_metadata_def)

lemma str_nat_digit: "n < 10 \<Longrightarrow> str_nat n = [digit_char n]"
  by (simp add: str_nat.simps)

text \<open>
  Counterexample to C7 as claimed, with a clock that moves between the two readings: here
  \<^verbatim>\<open>created_at\<close> is 0 and \<^verbatim>\<open>updated_at\<close> is 1.
\<close>

theorem create_then_get_timestamps_differ:
  "fst (get_memory ''notes'' ''0000000000000000'' True
          (snd (create_memory ''notes'' ''x'' [(''k'', MStr ''v'')] None None empty_client)))
     = Inr (Some
         \<lparr>r_id = ''0000000000000000'', r_document = ''x'',
          r_metadata = [(''k'', MStr ''v''), (''created_at'', MNum 0), (''updated_at'', MNum 1)],
          r_embedding = Some [1], r_distance = None\<rparr>) \<and>
   dict_get [(''k'', MStr ''v''), (''created_at'', MNum 0), (''updated_at'', MNum 1)] ''created_at''
     \<noteq> dict_get [(''k'', MStr ''v''), (''created_at'', MNum 0), (''updated_at'', MNum 1)] ''updated_at''"
proof -
  have "records empty_client ''notes'' = []"
    by (simp add: records_def empty_client_def)
  then have i: "created_id empty_client ''notes'' None = ''0000000000000000''"
    by (simp add: created_id_def str_nat_digit zfill_def digit_char_def eval_nat_numeral)
  have m: "as_got True (created_record empty_client ''notes'' ''x'' [(''k'', MStr ''v'')] None None)
             = \<lparr>r_id = ''0000000000000000'', r_document = ''x'',
                r_metadata = [(''k'', MStr ''v''), (''created_at'', MNum 0), (''updated_at'', MNum 1)],
                r_embedding = Some [1], r_distance = None\<rparr>"
    unfolding as_got_def created_record_def i
    by (simp add: stored_metadata_def empty_client_def)
  show ?thesis
    using get_after_create [of "''notes''" empty_client None True "''x''" "[(''k'', MStr ''v'')]" None]
    unfolding i m by (simp add: dict_get_def)
qed

theorem create_then_get_witness:
  "fst (get_memory ''notes'' (zfill (str_nat (length (records one_note_client ''notes''))) 16) False
          (snd (create_memory ''notes'' ''x'' [(''k'', MStr ''v'')] None None one_note_client)))
     = Inr (Some
         \<lparr>r_id = ''0000000000000001'', r_document = ''x'',
          r_metadata = [(''k'', MStr ''v''), (''created_at'', MNum 0), (''updated_at'', MNum 1)],
          r_embedding = None, r_distance = None\<rparr>)"
proof -
  have "records one_note_client ''notes'' = [note_a]"
    by (simp add: records_def one_note_client_def)
  then have i: "zfill (str_nat (length (records one_note_client ''notes''))) 16 = ''0000000000000001''"
    by (simp add: str_nat_digit zfill_def digit_char_def eval_nat_numeral)
  have c: "clock one_note_client (clock_reads one_note_client) = 0"
          "clock one_note_client (Suc (clock_reads one_note_client)) = 1"
    by (simp_all add: one_note_client_def empty_client_def)
  show ?thesis
    using create_then_get [of "''notes''" one_note_client False]
    unfolding i c by simp
qed

subsection \<open>Ids assigned from the count\<close>








lemma length_dec [simp]: "length (dec w n) = w"
  by (induction w arbitrary: n) auto

















lemma id_of_count_0: "id_of_count 0 = ''0000000000000000''"
  by (simp add: id_of_count_def str_nat_digit zfill_def digit_char_def eval_nat_numeral)

lemma id_of_count_1: "id_of_count (Suc 0) = ''0000000000000001''"
  by (simp add: id_of_count_def str_nat_digit zfill_def digit_char_def eval_nat_numeral)

lemma empty_client_counted:
  "records empty_client ''notes'' = []" "assigned_ids ''notes'' empty_client = []"
  "counted_ids empty_client ''notes''"
  by (simp_all add: records_def empty_client_def assigned_ids_def counted_ids_def)



subsection \<open>\<^verbatim>\<open>create_unique_memory\<close>\<close>

lemma dict_get_dict_set: "dict_get (dict_set k v d) k' = (if k' = k then Some v else dict_get d k')"
  by (induction d) (auto simp: dict_get_def)

lemma key_in_dict: "(k, v) \<in> set d \<Longrightarrow> k \<in> fst ` set d"
  by force

lemma keys_dict_set:
  "map fst (dict_set k v d) = (if k \<in> set (map fst d) then map fst d else map fst d @ [k])"
  by (induction d) (auto dest: key_in_dict)

lemma distinct_dict_set: "distinct (map fst d) \<Longrightarrow> distinct (map fst (dict_set k v d))"
  by (simp add: keys_dict_set)

lemma dict_set_append:
  "k \<notin> set (map fst xs) \<Longrightarrow> dict_set k v (xs @ (k, w) # ys) = xs @ (k, v) # ys"
  by (induction xs) auto

lemma stringify_bools_dict:
  "distinct (map fst (pre @ items)) \<Longrightarrow>
   fst (stringify_bools items (map (\<lambda>(k, v). (k, coerce_bool v)) pre @ items) out)
     = map (\<lambda>(k, v). (k, coerce_bool v)) (pre @ items)"
proof (induction items arbitrary: pre out)
  case Nil
  then show ?case by simp
next
  case (Cons kv items)
  obtain key val where kv: "kv = (key, val)" by (cases kv)
  from Cons.prems have d: "distinct (map fst ((pre @ [kv]) @ items))" by simp
  have key: "key \<notin> set (map fst (map (\<lambda>(k, v). (k, coerce_bool v)) pre))"
    using Cons.prems by (auto simp: kv dest: key_in_dict)
  show ?case
  proof (cases val)
    case (MBool b)
    have "dict_set key (MStr (str_bool b)) (map (\<lambda>(k, v). (k, coerce_bool v)) pre @ (key, MBool b) # items)
            = map (\<lambda>(k, v). (k, coerce_bool v)) (pre @ [kv]) @ items"
      using dict_set_append [OF key] by (simp add: kv MBool coerce_bool_def)
    then show ?thesis
      using Cons.IH [OF d] by (simp add: kv MBool)
  next
    case (MStr s)
    then show ?thesis
      using Cons.IH [OF d] by (simp add: kv coerce_bool_def)
  next
    case (MInt i)
    then show ?thesis
      using Cons.IH [OF d] by (simp add: kv coerce_bool_def)
  next
    case (MNum x)
    then show ?thesis
      using Cons.IH [OF d] by (simp add: kv coerce_bool_def)
  qed
qed

lemma dict_get_coerced:
  "dict_get (map (\<lambda>(k, v). (k, coerce_bool v)) d) k = map_option coerce_bool (dict_get d k)"
  by (induction d) (auto simp: dict_get_def)

lemma stored_metadata_lookup:
  assumes "distinct (map fst md)" and "k \<noteq> ''created_at''" and "k \<noteq> ''updated_at''"
  shows "dict_get (stored_metadata st md) k = map_option coerce_bool (dict_get md k)"
proof -
  let ?md2 = "dict_set ''updated_at'' (MNum (clock st (Suc (clock_reads st))))
                (dict_set ''created_at'' (MNum (clock st (clock_reads st))) md)"
  have "distinct (map fst ?md2)"
    using assms(1) by (intro distinct_dict_set)
  then have "fst (stringify_bools ?md2 ?md2 []) = map (\<lambda>(k, v). (k, coerce_bool v)) ?md2"
    using stringify_bools_dict [of "[]" ?md2 "[]"] by simp
  then show ?thesis
    using assms(2,3) by (simp add: stored_metadata_def dict_get_coerced dict_get_dict_set)
qed














lemma zfill_count_0: "zfill (str_nat 0) 16 = ''0000000000000000''"
  using id_of_count_0 by (simp add: id_of_count_def)

lemma zfill_count_1: "zfill (str_nat (Suc 0)) 16 = ''0000000000000001''"
  using id_of_count_1 by (simp add: id_of_count_def)

lemma flags_created:
  assumes "distinct (map fst md)"
  shows "flags (created_record st category text md emb None)
           = (zfill (str_nat (length (records st category))) 16,
              map_option coerce_bool (dict_get md ''unique''),
              map_option coerce_bool (dict_get md ''related_to''))"
  by (simp add: flags_def created_record_def created_id_def stored_metadata_lookup [OF assms])

lemma lone_note_reachable:
  "map flags (records (run ''notes'' [Create ''a'' [(''unique'', MStr ''True'')],
                                      Create ''b'' [(''unique'', MStr ''True'')],
                                      Delete ''0000000000000000''] empty_client) ''notes'')
     = map flags (records lone_note_client ''notes'')"
proof -
  let ?md = "[(''unique'', MStr ''True'')]"
  let ?s1 = "snd (create_memory ''notes'' ''a'' ?md None None empty_client)"
  let ?c1 = "created_record empty_client ''notes'' ''a'' ?md None None"
  let ?s2 = "snd (create_memory ''notes'' ''b'' ?md None None ?s1)"
  let ?c2 = "created_record ?s1 ''notes'' ''b'' ?md None None"
  have r1: "records ?s1 ''notes'' = [?c1]"
    by (simp add: records_create_memory put_record_def empty_client_counted)
  have i1: "mem_id ?c1 = ''0000000000000000''"
    by (simp add: created_record_def created_id_def empty_client_counted zfill_count_0)
  have i2: "mem_id ?c2 = ''0000000000000001''"
    by (simp add: created_record_def created_id_def r1 zfill_count_1)
  have r2: "records ?s2 ''notes'' = [?c1, ?c2]"
    by (simp add: records_create_memory [of _ _ _ _ _ ?s1] put_record_def r1 i1 i2)
  have "records (snd (delete_memory ''notes'' ''0000000000000000'' ?s2)) ''notes'' = [?c2]"
    by (simp add: records_delete_memory r2 i1 i2)
  moreover have "flags ?c2 = (''0000000000000001'', Some (MStr ''True''), None)"
    by (subst flags_created) (simp_all add: r1 zfill_count_1 dict_get_def coerce_bool_def)
  moreover have "map flags (records lone_note_client ''notes'')
                   = [(''0000000000000001'', Some (MStr ''True''), None)]"
    by (simp add: records_def lone_note_client_def note_b_def flags_def dict_get_def)
  ultimately show ?thesis by simp
qed



subsection \<open>\<^verbatim>\<open>update_memory\<close> with a metadata dictionary\<close>

text \<open>
  The case in which \<^verbatim>\<open>update\<close> succeeds: given a metadata dictionary (with or without
  a text), it returns normally, leaves every id as it was, and the record updated has
  \<^verbatim>\<open>updated_at\<close> set to the reading of the clock.
\<close>

lemma dict_get_fold_dict_set:
  "dict_get (fold (\<lambda>(k, v). dict_set k v) d md) k =
     (case dict_get (rev d) k of None \<Rightarrow> dict_get md k | Some v \<Rightarrow> Some v)"
proof (induction d arbitrary: md)
  case Nil
  then show ?case by (simp add: dict_get_def)
next
  case (Cons kv d)
  obtain k0 v0 where kv: "kv = (k0, v0)" by (cases kv)
  show ?case
    using Cons.IH [of "dict_set k0 v0 md"]
    by (auto simp: kv dict_get_dict_set [unfolded dict_get_def] dict_get_def map_add_def
          split: option.splits)
qed

lemma stringify_bools_keys:
  assumes "distinct (map fst d)"
  shows "map fst (fst (stringify_bools d d out)) = map fst d"
proof -
  have "fst (stringify_bools d d out) = map (\<lambda>(k, v). (k, coerce_bool v)) d"
    using stringify_bools_dict [of "[]" d out] assms by simp
  then show ?thesis by (simp add: comp_def case_prod_unfold)
qed

lemma records_chroma_update:
  "records (chroma_update category i doc md st) c =
     (if c = category
      then map (\<lambda>r. if mem_id r = i then update_record st doc md r else r) (records st category)
      else records st c)"
  by (simp add: chroma_update_def records_def issue_def)

lemma mem_id_update_record [simp]: "mem_id (update_record st doc md r) = mem_id r"
  by (simp add: update_record_def Let_def split: option.splits)

lemma update_memory_with_metadata:
  assumes "distinct (map fst d)"
  shows "fst (update_memory category i text (Some d) st) = Inr ()"
    and "map mem_id (records (snd (update_memory category i text (Some d) st)) category)
           = map mem_id (records st category)"
    and "\<forall>r\<in>set (records (snd (update_memory category i text (Some d) st)) category).
           mem_id r = i \<longrightarrow>
           dict_get (metadata r) ''updated_at'' = Some (MNum (clock st (clock_reads st)))"
proof -
  define t where "t = clock st (clock_reads st)"
  define st1 where "st1 = get_or_create_collection category st"
  define md2 where "md2 = dict_set ''updated_at'' (MNum t) (fst (stringify_bools d d (stdout st1)))"
  define st3 where "st3 = snd (now_timestamp (st1\<lparr>stdout := snd (stringify_bools d d (stdout st1))\<rparr>))"
  have "fst (now_timestamp (st1\<lparr>stdout := snd (stringify_bools d d (stdout st1))\<rparr>)) = t"
    by (simp add: t_def st1_def now_timestamp_def get_or_create_collection_def issue_def
          split: option.splits)
  then have eq: "update_memory category i text (Some d) st =
              (Inr (), debug_log (''Updated memory '' @ i @ '' in category '' @ category) ''info''
                         (chroma_update category i text (Some md2) st3))"
    by (simp add: update_memory_def Let_def split_beta st1_def [symmetric] md2_def st3_def)
  have r3: "records st3 category = records st category"
    by (simp add: st3_def st1_def now_timestamp_def records_def get_or_create_collection_def
          issue_def split: option.splits)
  show "fst (update_memory category i text (Some d) st) = Inr ()"
    by (simp add: eq)
  show "map mem_id (records (snd (update_memory category i text (Some d) st)) category)
           = map mem_id (records st category)"
    by (simp add: eq records_chroma_update r3 comp_def if_distrib [of mem_id])
  have d2: "distinct (map fst md2)"
    unfolding md2_def using assms by (intro distinct_dict_set) (simp add: stringify_bools_keys)
  have "map_of md2 ''updated_at'' = Some (MNum t)"
    by (simp add: md2_def dict_get_dict_set [unfolded dict_get_def])
  with d2 have "(''updated_at'', MNum t) \<in> set (rev md2)"
    by simp
  moreover from d2 have "distinct (map fst (rev md2))"
    by (simp add: rev_map [symmetric])
  ultimately have "dict_get (rev md2) ''updated_at'' = Some (MNum t)"
    unfolding dict_get_def by (simp only: map_of_eq_Some_iff)
  then have "\<And>r. dict_get (metadata (update_record st3 text (Some md2) r)) ''updated_at''
                 = Some (MNum t)"
    by (simp add: update_record_def Let_def dict_get_fold_dict_set split: option.splits)
  then show "\<forall>r\<in>set (records (snd (update_memory category i text (Some d) st)) category).
           mem_id r = i \<longrightarrow>
           dict_get (metadata r) ''updated_at'' = Some (MNum (clock st (clock_reads st)))"
    by (auto simp: eq records_chroma_update r3 t_def)
qed

end
